theory Spec2Isabelle
  imports
    Complex_Main
    "HOL-Library.Word"
    "HOL-Library.Char_ord"
    "HOL-Library.List_Lexorder"
    "HOL-Library.Multiset"
begin

unbundle bit_operations_syntax

section \<open>Data model\<close>

text \<open>
  The GitHub integration server of \<^verbatim>\<open>claude-framework/mcp-servers/github/main.py\<close> and the
  cache-key helper of \<^verbatim>\<open>utils.py\<close>.

  Python \<^verbatim>\<open>str\<close> values are modelled as \<^typ>\<open>string\<close>, one \<^typ>\<open>char\<close> per code point
  below 256. That is exactly what an HTTP header value is after the framework has decoded
  it (latin-1, one character per byte). \<^verbatim>\<open>bytes\<close> are lists of 8-bit words.
\<close>

type_synonym byte = "8 word"
type_synonym bytes = "byte list"

text \<open>Decoded JSON. A \<^verbatim>\<open>dict\<close> keeps its items in insertion order, keys unique.\<close>

datatype json =
    JNull
  | JBool bool
  | JInt int
  | JStr string
  | JArr "json list"
  | JObj "(string \<times> json) list"

text \<open>
  Exceptions as values: \<^verbatim>\<open>HTTPException(status_code, detail)\<close> of the web framework, and
  any other \<^verbatim>\<open>Exception\<close> by its class name and its \<^verbatim>\<open>str(e)\<close> text.
\<close>

datatype py_error =
    HTTPException nat string
  | Exception string string

definition TypeError :: "string \<Rightarrow> py_error" where
  "TypeError msg = Exception ''TypeError'' msg"

definition AttributeError :: "string \<Rightarrow> py_error" where
  "AttributeError msg = Exception ''AttributeError'' msg"

fun str_error :: "py_error \<Rightarrow> string" where
  "str_error (HTTPException code detail) = detail"
| "str_error (Exception cls msg) = msg"

text \<open>\<^verbatim>\<open>str(x)\<close> of an optional string: \<^verbatim>\<open>None\<close> prints as \<^verbatim>\<open>None\<close>.\<close>

fun str_opt :: "string option \<Rightarrow> string" where
  "str_opt None = ''None''"
| "str_opt (Some s) = s"

text \<open>Truth value of an optional string: \<^verbatim>\<open>None\<close> and the empty string are false.\<close>

fun truthy_opt :: "string option \<Rightarrow> bool" where
  "truthy_opt None = False"
| "truthy_opt (Some s) = (s \<noteq> [])"

subsection \<open>Standard-library functions the server calls\<close>

text \<open>
  \<^verbatim>\<open>str.encode()\<close>: UTF-8. A code point below 128 is one byte, one from 128 to 255 is
  two bytes.
\<close>

definition encode_char :: "char \<Rightarrow> bytes" where
  "encode_char c =
     (let n = (of_char c :: nat) in
      if n < 128 then [of_nat n]
      else [of_nat (192 + n div 64), of_nat (128 + n mod 64)])"

definition encode :: "string \<Rightarrow> bytes" where
  "encode s = concat (map encode_char s)"

text \<open>
  \<^verbatim>\<open>hexdigest()\<close>: two lowercase hexadecimal digits per byte of the digest. The digest
  itself (\<^verbatim>\<open>hmac.new(key, msg, hashlib.sha256)\<close>) is a parameter \<open>hmac_sha256\<close> of every
  function that needs it: the theorems hold whatever the hash computes.
\<close>

definition hex_digit :: "nat \<Rightarrow> char" where
  "hex_digit n = (if n < 10 then char_of (48 + n) else char_of (87 + n))"

definition hex_byte :: "byte \<Rightarrow> string" where
  "hex_byte b = [hex_digit (unat b div 16), hex_digit (unat b mod 16)]"

definition hexdigest :: "bytes \<Rightarrow> string" where
  "hexdigest bs = concat (map hex_byte bs)"

text \<open>
  \<^verbatim>\<open>hmac.compare_digest(a, b)\<close> on two \<^verbatim>\<open>str\<close> arguments: equality, computed in time
  independent of the contents (timing is not modelled), and a \<^verbatim>\<open>TypeError\<close> when either
  string holds a character outside ASCII.
\<close>

definition is_ascii :: "string \<Rightarrow> bool" where
  "is_ascii s = list_all (\<lambda>c. (of_char c :: nat) < 128) s"

definition compare_digest :: "string \<Rightarrow> string \<Rightarrow> py_error + bool" where
  "compare_digest a b =
     (if is_ascii a \<and> is_ascii b then Inr (a = b)
      else Inl (TypeError ''comparing strings with non-ASCII characters is not supported''))"

subsection \<open>Server state and requests\<close>

text \<open>\<^verbatim>\<open>PRAutomationConfig\<close>, with the defaults of its field declarations.\<close>

record PRAutomationConfig =
  auto_assign :: bool
  auto_label :: bool
  require_reviews :: int
  protected_branches :: "string list"
  draft_on_wip :: bool
  close_stale_after_days :: int

definition PRAutomationConfig_default :: PRAutomationConfig where
  "PRAutomationConfig_default =
     \<lparr> auto_assign = True,
       auto_label = True,
       require_reviews = 2,
       protected_branches = [''main'', ''master'', ''production''],
       draft_on_wip = True,
       close_stale_after_days = 30 \<rparr>"

text \<open>The six handler methods that \<^verbatim>\<open>_register_webhook_handlers\<close> puts in the table.\<close>

datatype handler =
    handle_push_event
  | handle_pr_event
  | handle_issue_event
  | handle_comment_event
  | handle_review_event
  | handle_workflow_event

datatype log_level = INFO | WARNING | ERROR

text \<open>
  The attributes of \<^verbatim>\<open>GitHubIntegrationMCPServer\<close> that the modelled methods read or
  write. \<open>'r\<close> is the state of the cache behind \<^verbatim>\<open>redis_client\<close> (\<^verbatim>\<open>None\<close> when no client
  is attached); \<open>logger\<close> collects the records written through \<^verbatim>\<open>self.logger\<close>;
  \<open>studio_posts\<close> collects the requests sent through \<^verbatim>\<open>self.studio_client.post\<close>.
\<close>

record 'r server =
  webhook_secret :: "string option"
  redis_client :: "'r option"
  webhook_handlers :: "string \<rightharpoonup> handler"
  pr_configs :: "string \<rightharpoonup> PRAutomationConfig"
  logger :: "(log_level \<times> string) list"
  studio_posts :: "(string \<times> json) list"

text \<open>
  An incoming request: its headers, its raw body, and the outcome of
  \<^verbatim>\<open>await request.json()\<close> on that body (an exception when the body is not JSON).
\<close>

record request =
  headers :: "string \<rightharpoonup> string"
  body :: bytes
  json_body :: "py_error + json"

section \<open>Webhook signature verification\<close>

text \<open>
  \<^verbatim>\<open>_verify_webhook_signature(self, request, signature)\<close>. The result is paired with the
  calls made on the way: reading the body, computing the HMAC.
\<close>

datatype verify_step = ReadBody | ComputeHMAC

definition verify_webhook_signature ::
  "(bytes \<Rightarrow> bytes \<Rightarrow> bytes) \<Rightarrow> 'r server \<Rightarrow> request \<Rightarrow> string option
     \<Rightarrow> verify_step list \<times> (py_error + bool)" where
  "verify_webhook_signature hmac_sha256 self req signature =
     (if \<not> truthy_opt (webhook_secret self) \<or> \<not> truthy_opt signature then ([], Inr False)
      else
        let body' = body req;
            expected = hexdigest (hmac_sha256 (encode (str_opt (webhook_secret self))) body')
        in ([ReadBody, ComputeHMAC],
            compare_digest (''sha256='' @ expected) (str_opt signature)))"

text \<open>
  The signature that matches a body: \<^verbatim>\<open>"sha256=" + hexHMAC(S, B)\<close>.
\<close>

definition valid_signature :: "(bytes \<Rightarrow> bytes \<Rightarrow> bytes) \<Rightarrow> string \<Rightarrow> bytes \<Rightarrow> string" where
  "valid_signature hmac_sha256 secret b = ''sha256='' @ hexdigest (hmac_sha256 (encode secret) b)"

text \<open>Flipping bit \<open>b\<close> of the character at position \<open>i\<close> of a string.\<close>

definition flip_bit_at :: "nat \<Rightarrow> nat \<Rightarrow> string \<Rightarrow> string" where
  "flip_bit_at i b s = s[i := char_of ((of_char (s ! i) :: nat) XOR 2 ^ b)]"


section \<open>Webhook endpoint and processing\<close>

subsection \<open>Helpers on decoded JSON\<close>

fun type_name :: "json \<Rightarrow> string" where
  "type_name JNull = ''NoneType''"
| "type_name (JBool b) = ''bool''"
| "type_name (JInt i) = ''int''"
| "type_name (JStr s) = ''str''"
| "type_name (JArr xs) = ''list''"
| "type_name (JObj kvs) = ''dict''"

text \<open>
  \<^verbatim>\<open>x.get(key, default)\<close>: defined on a \<^verbatim>\<open>dict\<close> only; any other value has no
  attribute \<^verbatim>\<open>get\<close>.
\<close>

fun py_get :: "json \<Rightarrow> string \<Rightarrow> json \<Rightarrow> py_error + json" where
  "py_get (JObj kvs) key dflt =
     Inr (case map_of kvs key of None \<Rightarrow> dflt | Some v \<Rightarrow> v)"
| "py_get x key dflt =
     Inl (AttributeError ([CHR 0x27] @ type_name x @ [CHR 0x27] @ '' object has no attribute ''
            @ [CHR 0x27] @ ''get'' @ [CHR 0x27]))"

text \<open>Truth value of a decoded JSON value.\<close>

fun py_truthy :: "json \<Rightarrow> bool" where
  "py_truthy JNull = False"
| "py_truthy (JBool b) = b"
| "py_truthy (JInt i) = (i \<noteq> 0)"
| "py_truthy (JStr s) = (s \<noteq> [])"
| "py_truthy (JArr xs) = (xs \<noteq> [])"
| "py_truthy (JObj kvs) = (kvs \<noteq> [])"

fun json_opt :: "string option \<Rightarrow> json" where
  "json_opt None = JNull"
| "json_opt (Some s) = JStr s"

subsection \<open>Start-up\<close>

text \<open>
  The attributes as \<^verbatim>\<open>__init__\<close> leaves them: the secret read from the environment, no
  cache client, empty tables. The log is taken empty.
\<close>

definition fresh_server :: "string option \<Rightarrow> 'r server" where
  "fresh_server secret =
     \<lparr> webhook_secret = secret,
       redis_client = None,
       webhook_handlers = Map.empty,
       pr_configs = Map.empty,
       logger = [],
       studio_posts = [] \<rparr>"

text \<open>\<^verbatim>\<open>_register_webhook_handlers\<close>: the table has exactly these six event types.\<close>

definition register_webhook_handlers :: "'r server \<Rightarrow> 'r server" where
  "register_webhook_handlers self =
     self\<lparr> webhook_handlers :=
       [''push'' \<mapsto> handle_push_event,
        ''pull_request'' \<mapsto> handle_pr_event,
        ''issues'' \<mapsto> handle_issue_event,
        ''issue_comment'' \<mapsto> handle_comment_event,
        ''pull_request_review'' \<mapsto> handle_review_event,
        ''workflow_run'' \<mapsto> handle_workflow_event] \<rparr>"

definition logger_log :: "log_level \<Rightarrow> string \<Rightarrow> 'r server \<Rightarrow> 'r server" where
  "logger_log level msg self = self\<lparr> logger := logger self @ [(level, msg)] \<rparr>"

subsection \<open>The endpoint\<close>




subsection \<open>Processing a delivery\<close>

text \<open>
  The cache call \<^verbatim>\<open>redis_client.setex(key, ttl, value)\<close> is a parameter \<open>setex\<close>: from the
  cache state, the key, the time to live in seconds and the document that is serialised
  into the value, it gives the exception raised, if any, and the new cache state. The
  timestamp \<^verbatim>\<open>datetime.utcnow().isoformat()\<close> is a parameter \<open>now\<close>.
\<close>

definition store_webhook_event ::
  "('r \<Rightarrow> string \<Rightarrow> nat \<Rightarrow> json \<Rightarrow> py_error option \<times> 'r) \<Rightarrow> string
     \<Rightarrow> string option \<Rightarrow> json \<Rightarrow> string option \<Rightarrow> 'r server
     \<Rightarrow> py_error option \<times> 'r server" where
  "store_webhook_event setex now event_type payload delivery_id self =
     (case redis_client self of
        None \<Rightarrow> (None, self)
      | Some r \<Rightarrow>
          (case setex r (''webhook:'' @ str_opt delivery_id) 3600
                  (JObj [(''event_type'', json_opt event_type),
                         (''payload'', payload),
                         (''timestamp'', JStr now),
                         (''delivery_id'', json_opt delivery_id)]) of
             (raised, r') \<Rightarrow> (raised, self\<lparr> redis_client := Some r' \<rparr>)))"

definition store_webhook_error ::
  "('r \<Rightarrow> string \<Rightarrow> nat \<Rightarrow> json \<Rightarrow> py_error option \<times> 'r) \<Rightarrow> string
     \<Rightarrow> string option \<Rightarrow> string \<Rightarrow> 'r server \<Rightarrow> py_error option \<times> 'r server" where
  "store_webhook_error setex now delivery_id error self =
     (case redis_client self of
        None \<Rightarrow> (None, self)
      | Some r \<Rightarrow>
          (case setex r (''webhook:error:'' @ str_opt delivery_id) 86400
                  (JObj [(''delivery_id'', json_opt delivery_id),
                         (''error'', JStr error),
                         (''timestamp'', JStr now)]) of
             (raised, r') \<Rightarrow> (raised, self\<lparr> redis_client := Some r' \<rparr>)))"

text \<open>\<^verbatim>\<open>_get_project_id_for_repo\<close>: the source returns \<^verbatim>\<open>None\<close> for every repository.\<close>

definition get_project_id_for_repo :: "json \<Rightarrow> json \<Rightarrow> string option" where
  "get_project_id_for_repo owner name = None"

text \<open>
  \<^verbatim>\<open>_notify_studio_backend\<close>: every exception inside is caught and logged there. The
  request to the backend is sent only for a project id that is not empty.
\<close>

definition notify_failed :: "py_error \<Rightarrow> 'r server \<Rightarrow> 'r server" where
  "notify_failed e self = logger_log ERROR (''Error notifying Studio backend: '' @ str_error e) self"

definition notify_studio_backend ::
  "string \<Rightarrow> string option \<Rightarrow> json \<Rightarrow> 'r server \<Rightarrow> 'r server" where
  "notify_studio_backend now event_type payload self =
     (case py_get payload ''repository'' (JObj []) of
        Inl e \<Rightarrow> notify_failed e self
      | Inr repository \<Rightarrow>
          (case py_get repository ''owner'' (JObj []) of
             Inl e \<Rightarrow> notify_failed e self
           | Inr owner \<Rightarrow>
               (case py_get owner ''login'' JNull of
                  Inl e \<Rightarrow> notify_failed e self
                | Inr login \<Rightarrow>
                    (case py_get repository ''name'' JNull of
                       Inl e \<Rightarrow> notify_failed e self
                     | Inr name \<Rightarrow>
                         (let project_id = get_project_id_for_repo login name in
                          if truthy_opt project_id
                          then self\<lparr> studio_posts := studio_posts self @
                                 [(''/api/projects/'' @ str_opt project_id @ ''/github-events'',
                                   JObj [(''event_type'', json_opt event_type),
                                         (''payload'', payload),
                                         (''timestamp'', JStr now)])] \<rparr>
                          else self)))))"

text \<open>
  The \<^verbatim>\<open>except Exception as e\<close> clause of \<^verbatim>\<open>_process_webhook\<close>: log, then store the
  error. An exception raised by that store leaves the function.
\<close>

definition process_webhook_except ::
  "('r \<Rightarrow> string \<Rightarrow> nat \<Rightarrow> json \<Rightarrow> py_error option \<times> 'r) \<Rightarrow> string
     \<Rightarrow> string option \<Rightarrow> py_error \<Rightarrow> 'r server \<Rightarrow> py_error option \<times> 'r server" where
  "process_webhook_except setex now delivery_id e self =
     store_webhook_error setex now delivery_id (str_error e)
       (logger_log ERROR (''Error processing webhook '' @ str_opt delivery_id @ '': '' @ str_error e)
          self)"

text \<open>
  \<^verbatim>\<open>_process_webhook(event_type, payload, delivery_id)\<close>. What a handler does is a
  parameter \<open>invoke\<close>: from the handler, the payload and the server it gives the exception
  raised, if any, and the server it leaves. \<open>process_webhook_try\<close> is the \<^verbatim>\<open>try\<close> block:
  it gives the exception raised inside, if any, and the server at that point. The result
  of \<open>process_webhook\<close> is the exception that leaves \<^verbatim>\<open>_process_webhook\<close>, if any, and
  the server.
\<close>

text \<open>\<^verbatim>\<open>self.webhook_handlers.get(event_type)\<close>; no key of the table is \<^verbatim>\<open>None\<close>.\<close>

definition lookup_handler :: "'r server \<Rightarrow> string option \<Rightarrow> handler option" where
  "lookup_handler self event_type =
     (case event_type of None \<Rightarrow> None | Some t \<Rightarrow> webhook_handlers self t)"

definition process_webhook_try ::
  "(handler \<Rightarrow> json \<Rightarrow> 'r server \<Rightarrow> py_error option \<times> 'r server)
     \<Rightarrow> ('r \<Rightarrow> string \<Rightarrow> nat \<Rightarrow> json \<Rightarrow> py_error option \<times> 'r) \<Rightarrow> string
     \<Rightarrow> string option \<Rightarrow> json \<Rightarrow> string option \<Rightarrow> 'r server
     \<Rightarrow> py_error option \<times> 'r server" where
  "process_webhook_try invoke setex now event_type payload delivery_id self =
     (case store_webhook_event setex now event_type payload delivery_id self of
        (Some e, s1) \<Rightarrow> (Some e, s1)
      | (None, s1) \<Rightarrow>
          (case lookup_handler s1 event_type of
             Some h \<Rightarrow>
               (case invoke h payload s1 of
                  (Some e, s2) \<Rightarrow> (Some e, s2)
                | (None, s2) \<Rightarrow> (None, notify_studio_backend now event_type payload s2))
           | None \<Rightarrow>
               (None, notify_studio_backend now event_type payload
                        (logger_log WARNING
                           (''No handler for webhook event: '' @ str_opt event_type) s1))))"

definition process_webhook ::
  "(handler \<Rightarrow> json \<Rightarrow> 'r server \<Rightarrow> py_error option \<times> 'r server)
     \<Rightarrow> ('r \<Rightarrow> string \<Rightarrow> nat \<Rightarrow> json \<Rightarrow> py_error option \<times> 'r) \<Rightarrow> string
     \<Rightarrow> string option \<Rightarrow> json \<Rightarrow> string option \<Rightarrow> 'r server
     \<Rightarrow> py_error option \<times> 'r server" where
  "process_webhook invoke setex now event_type payload delivery_id self =
     (case process_webhook_try invoke setex now event_type payload delivery_id self of
        (Some e, s) \<Rightarrow> process_webhook_except setex now delivery_id e s
      | (None, s) \<Rightarrow> (None, s))"

section \<open>Pull-request automation settings\<close>

text \<open>
  \<^verbatim>\<open>_get_pr_config(repository)\<close>. Python's \<^verbatim>\<open>str\<close> on a decoded JSON value is a parameter
  \<open>py_str\<close>. The method returns the configuration (or raises) and the server.
\<close>

definition get_pr_config ::
  "(json \<Rightarrow> string) \<Rightarrow> json \<Rightarrow> 'r server \<Rightarrow> (py_error + PRAutomationConfig) \<times> 'r server" where
  "get_pr_config py_str repository self =
     (case py_get repository ''id'' JNull of
        Inl e \<Rightarrow> (Inl e, self)
      | Inr v \<Rightarrow>
          (let repo_id = py_str v in
           case pr_configs self repo_id of
             Some config \<Rightarrow> (Inr config, self)
           | None \<Rightarrow> (Inr PRAutomationConfig_default, self)))"


section \<open>Pull-request metrics\<close>

text \<open>
  A pull request as the remote API returns it, with the attributes that
  \<^verbatim>\<open>_analyze_pr_metrics\<close> reads. Timestamps are microseconds since the epoch. Where Python
  computes a \<^verbatim>\<open>float\<close> (hours, averages, rates) the model computes the exact rational.
\<close>

record pull_request =
  created_at :: int
  merged :: bool
  merged_at :: "int option"
  state :: string
  user_login :: string
  comments_totalCount :: int
  reviews_totalCount :: int
  additions :: int
  deletions :: int
  labels :: "string list"

text \<open>The dictionary \<^verbatim>\<open>pr_metrics\<close>; its three inner dictionaries keep insertion order.\<close>

record pr_metrics =
  total_prs :: int
  merged_prs :: int
  open_prs :: int
  closed_without_merge :: int
  avg_merge_time_hours :: rat
  avg_review_time_hours :: rat
  avg_comments :: rat
  avg_changes :: rat
  top_contributors :: "(string \<times> int) list"
  label_distribution :: "(string \<times> int) list"
  daily_activity :: "(string \<times> int) list"

definition pr_metrics_initial :: pr_metrics where
  "pr_metrics_initial =
     \<lparr> total_prs = 0, merged_prs = 0, open_prs = 0, closed_without_merge = 0,
       avg_merge_time_hours = 0, avg_review_time_hours = 0, avg_comments = 0, avg_changes = 0,
       top_contributors = [], label_distribution = [], daily_activity = [] \<rparr>"

text \<open>The variables the loop over the pull requests updates.\<close>

record accumulator =
  pr_metrics :: pr_metrics
  merge_times :: "rat list"
  review_times :: "rat list"
  comment_counts :: "int list"
  change_counts :: "int list"

definition accumulator_initial :: accumulator where
  "accumulator_initial =
     \<lparr> pr_metrics = pr_metrics_initial, merge_times = [], review_times = [],
       comment_counts = [], change_counts = [] \<rparr>"

text \<open>\<^verbatim>\<open>d[k] = d.get(k, 0) + 1\<close>: a present key keeps its place, a new one goes last.\<close>

definition dict_incr :: "string \<Rightarrow> (string \<times> int) list \<Rightarrow> (string \<times> int) list" where
  "dict_incr k d =
     (case map_of d k of
        None \<Rightarrow> d @ [(k, 1)]
      | Some n \<Rightarrow> map (\<lambda>(k', v). if k' = k then (k', n + 1) else (k', v)) d)"

text \<open>\<^verbatim>\<open>(a - b).total_seconds() / 3600\<close> for timestamps in microseconds.\<close>

definition hours_between :: "int \<Rightarrow> int \<Rightarrow> rat" where
  "hours_between a b = of_int (a - b) / 3600000000"

text \<open>The body of the loop, for one pull request inside the window.\<close>

definition accumulate_pr :: "string list \<Rightarrow> accumulator \<Rightarrow> pull_request \<Rightarrow> accumulator" where
  "accumulate_pr metrics acc pr =
     (let m0 = pr_metrics acc;
          m1 = m0\<lparr> total_prs := total_prs m0 + 1 \<rparr>;
          m2 = (if merged pr then m1\<lparr> merged_prs := merged_prs m1 + 1 \<rparr>
                else if state pr = ''open'' then m1\<lparr> open_prs := open_prs m1 + 1 \<rparr>
                else m1\<lparr> closed_without_merge := closed_without_merge m1 + 1 \<rparr>);
          merge_times' = (if merged pr
                          then (case merged_at pr of
                                  Some t \<Rightarrow> merge_times acc @ [hours_between t (created_at pr)]
                                | None \<Rightarrow> merge_times acc)
                          else merge_times acc);
          m3 = m2\<lparr> top_contributors := dict_incr (user_login pr) (top_contributors m2) \<rparr>;
          comment_counts' = (if ''comments'' \<in> set metrics
                             then comment_counts acc
                                    @ [comments_totalCount pr + reviews_totalCount pr]
                             else comment_counts acc);
          change_counts' = (if ''changes'' \<in> set metrics \<and> merged pr
                            then change_counts acc @ [additions pr + deletions pr]
                            else change_counts acc);
          m4 = m3\<lparr> label_distribution := foldl (\<lambda>d l. dict_incr l d) (label_distribution m3)
                                             (labels pr) \<rparr>
      in acc\<lparr> pr_metrics := m4, merge_times := merge_times',
              comment_counts := comment_counts', change_counts := change_counts' \<rparr>)"

text \<open>
  \<^verbatim>\<open>for pr in prs: if pr.created_at < start_date: break ...\<close>
\<close>

fun accumulate_prs ::
  "int \<Rightarrow> string list \<Rightarrow> accumulator \<Rightarrow> pull_request list \<Rightarrow> accumulator" where
  "accumulate_prs start_date metrics acc [] = acc"
| "accumulate_prs start_date metrics acc (pr # prs) =
     (if created_at pr < start_date then acc
      else accumulate_prs start_date metrics (accumulate_pr metrics acc pr) prs)"

text \<open>
  The lines of \<^verbatim>\<open>_generate_pr_insights\<close>, each by the values it prints rather than by
  its formatted text.
\<close>

datatype insight =
    MergeRate rat int int
  | AverageMergeTimeHours rat
  | AverageMergeTimeDays rat
  | AverageCommentsPerPR rat
  | TopContributor string int
  | HighNumberOfOpenPRs int

definition generate_pr_insights :: "pr_metrics \<Rightarrow> insight list" where
  "generate_pr_insights m =
     (if total_prs m > 0
      then [MergeRate (of_int (merged_prs m) / of_int (total_prs m) * 100)
              (merged_prs m) (total_prs m)]
      else [])
     @ (if avg_merge_time_hours m > 0
        then (if avg_merge_time_hours m < 24
              then [AverageMergeTimeHours (avg_merge_time_hours m)]
              else [AverageMergeTimeDays (avg_merge_time_hours m / 24)])
        else [])
     @ (if avg_comments m > 0 then [AverageCommentsPerPR (avg_comments m)] else [])
     @ (case top_contributors m of
          [] \<Rightarrow> []
        | (top_contributor, contributions) # rest \<Rightarrow>
            [TopContributor top_contributor contributions])
     @ (if open_prs m > 10 then [HighNumberOfOpenPRs (open_prs m)] else [])"

text \<open>The averages and the ten most active contributors, computed after the loop.\<close>

definition finish_metrics :: "accumulator \<Rightarrow> pr_metrics" where
  "finish_metrics acc =
     (let m0 = pr_metrics acc;
          m1 = (if merge_times acc \<noteq> []
                then m0\<lparr> avg_merge_time_hours :=
                       sum_list (merge_times acc) / of_nat (length (merge_times acc)) \<rparr>
                else m0);
          m2 = (if comment_counts acc \<noteq> []
                then m1\<lparr> avg_comments :=
                       of_int (sum_list (comment_counts acc))
                         / of_nat (length (comment_counts acc)) \<rparr>
                else m1);
          m3 = (if change_counts acc \<noteq> []
                then m2\<lparr> avg_changes :=
                       of_int (sum_list (change_counts acc))
                         / of_nat (length (change_counts acc)) \<rparr>
                else m2)
      in m3\<lparr> top_contributors :=
               take 10 (sort_key (\<lambda>x. - snd x) (top_contributors m3)) \<rparr>)"

text \<open>
  \<^verbatim>\<open>_analyze_pr_metrics(arguments)\<close>. The remote calls are inputs: \<open>project\<close> is what
  \<^verbatim>\<open>_get_project_info\<close> returned, \<open>fetched\<close> is the outcome of resolving the repository and
  listing its pull requests, newest first, \<open>now\<close> is \<^verbatim>\<open>datetime.utcnow()\<close>. Any
  exception is caught and returned as a failure with its text.
\<close>

record analyze_arguments =
  arg_project_id :: string
  arg_timeframe_days :: "int option"
  arg_metrics :: "string list option"

datatype analysis =
    Failure string
  | Success pr_metrics "insight list" "int \<times> int \<times> int"

definition analyze_pr_metrics ::
  "analyze_arguments \<Rightarrow> json \<Rightarrow> py_error + pull_request list \<Rightarrow> int \<Rightarrow> analysis" where
  "analyze_pr_metrics arguments project fetched now =
     (let timeframe_days = (case arg_timeframe_days arguments of None \<Rightarrow> 30 | Some d \<Rightarrow> d);
          metrics = (case arg_metrics arguments of
                       None \<Rightarrow> [''merge_time'', ''review_time'', ''comments'', ''changes'']
                     | Some ms \<Rightarrow> ms)
      in case py_get project ''githubRepoId'' JNull of
           Inl e \<Rightarrow> Failure (str_error e)
         | Inr repo_id \<Rightarrow>
             if \<not> py_truthy repo_id then Failure ''Project not connected to GitHub''
             else
               (case fetched of
                  Inl e \<Rightarrow> Failure (str_error e)
                | Inr prs \<Rightarrow>
                    (let end_date = now;
                         start_date = end_date - timeframe_days * 86400000000;
                         acc = accumulate_prs start_date metrics accumulator_initial prs;
                         m = finish_metrics acc;
                         insights = generate_pr_insights m
                     in Success m insights (start_date, end_date, timeframe_days))))"

section \<open>Cache keys\<close>







section \<open>Properties of signature verification\<close>

subsection \<open>Hexadecimal digests are ASCII\<close>

lemma hex_digit_ascii: "n < 16 \<Longrightarrow> (of_char (hex_digit n) :: nat) < 128"
  by (simp add: hex_digit_def)

lemma is_ascii_append: "is_ascii (a @ b) = (is_ascii a \<and> is_ascii b)"
  by (simp add: is_ascii_def)

lemma is_ascii_hex_byte: "is_ascii (hex_byte b)"
proof -
  have "unat b < 256" using unsigned_less [of b] by simp
  then have "unat b div 16 < 16" by simp
  then show ?thesis
    by (simp add: is_ascii_def hex_byte_def hex_digit_ascii)
qed

lemma is_ascii_hexdigest: "is_ascii (hexdigest bs)"
proof (induction bs)
  case Nil
  show ?case by (simp add: hexdigest_def is_ascii_def)
next
  case (Cons b bs)
  then show ?case
    by (simp add: hexdigest_def is_ascii_append is_ascii_hex_byte)
qed

lemma is_ascii_prefix: "is_ascii ''sha256=''"
  by (simp add: is_ascii_def)

lemma is_ascii_valid_signature: "is_ascii (valid_signature H s b)"
  by (simp add: valid_signature_def is_ascii_append is_ascii_hexdigest is_ascii_prefix
      del: append.simps)

lemma verify_unfold:
  "verify_webhook_signature H self req signature =
     (if \<not> truthy_opt (webhook_secret self) \<or> \<not> truthy_opt signature then ([], Inr False)
      else ([ReadBody, ComputeHMAC],
            compare_digest (valid_signature H (str_opt (webhook_secret self)) (body req))
              (str_opt signature)))"
  by (simp add: verify_webhook_signature_def valid_signature_def Let_def)

subsection \<open>Flipping one bit of an ASCII character\<close>

lemma xor_lt_256: "n < 256 \<Longrightarrow> b < 8 \<Longrightarrow> (n::nat) XOR 2 ^ b < 256"
proof -
  assume n: "n < 256" and b: "b < 8"
  from n have n': "n < 2 ^ 8" by simp
  have "take_bit 8 (n XOR 2 ^ b) = take_bit 8 n XOR take_bit 8 (2 ^ b :: nat)"
    by (rule take_bit_xor)
  also have "\<dots> = n XOR 2 ^ b"
    using n' b by (simp add: take_bit_nat_eq_self)
  finally have "n XOR 2 ^ b < 2 ^ 8" by (simp only: take_bit_nat_eq_self_iff)
  then show ?thesis by simp
qed

lemma ascii_iff_bit7: "n < 256 \<Longrightarrow> (n < 128) = (\<not> bit (n::nat) 7)"
proof -
  assume n: "n < 256"
  have b: "bit n 7 = odd (n div 2 ^ 7)" by (rule bit_iff_odd)
  show ?thesis
  proof (cases "n < 128")
    case True
    then have "n div 2 ^ 7 = 0" by simp
    with b True show ?thesis by simp
  next
    case False
    with n have "n div 128 = 1" by arith
    then have "n div 2 ^ 7 = 1" by simp
    with b False show ?thesis by simp
  qed
qed

lemma xor_ne: "(n::nat) XOR 2 ^ b \<noteq> n"
proof
  assume "n XOR 2 ^ b = n"
  then have "bit (n XOR 2 ^ b) b = bit n b" by simp
  then show False by (simp add: bit_xor_iff bit_exp_iff)
qed

lemma flip_char_ne: "b < 8 \<Longrightarrow> char_of ((of_char c :: nat) XOR 2 ^ b) \<noteq> c"
proof
  assume b: "b < 8" and eq: "char_of ((of_char c :: nat) XOR 2 ^ b) = c"
  have lt: "(of_char c :: nat) < 256" by simp
  from eq have "(of_char (char_of ((of_char c :: nat) XOR 2 ^ b)) :: nat) = of_char c" by simp
  then have "((of_char c :: nat) XOR 2 ^ b) mod 256 = of_char c" by simp
  with xor_lt_256 [OF lt b] have "(of_char c :: nat) XOR 2 ^ b = of_char c" by simp
  with xor_ne show False by blast
qed

lemma flip_char_ascii:
  assumes c: "(of_char c :: nat) < 128" and b: "b < 8"
  shows "((of_char (char_of ((of_char c :: nat) XOR 2 ^ b)) :: nat) < 128) = (b \<noteq> 7)"
proof -
  have lt: "(of_char c :: nat) < 256" by simp
  have m: "(of_char c :: nat) XOR 2 ^ b < 256" by (rule xor_lt_256 [OF lt b])
  have "(of_char (char_of ((of_char c :: nat) XOR 2 ^ b)) :: nat) = (of_char c :: nat) XOR 2 ^ b"
    using m by simp
  moreover have "((of_char c :: nat) XOR 2 ^ b < 128) = (\<not> bit ((of_char c :: nat) XOR 2 ^ b) 7)"
    by (rule ascii_iff_bit7 [OF m])
  moreover have "\<not> bit (of_char c :: nat) 7"
    using ascii_iff_bit7 [OF lt] c by simp
  ultimately show ?thesis
    by (auto simp add: bit_xor_iff bit_exp_iff)
qed

lemma is_ascii_update:
  "is_ascii s \<Longrightarrow> i < length s \<Longrightarrow> is_ascii (s[i := c]) = ((of_char c :: nat) < 128)"
proof (induction s arbitrary: i)
  case Nil
  then show ?case by simp
next
  case (Cons a s)
  then show ?case by (cases i) (auto simp add: is_ascii_def)
qed

lemma is_ascii_nth: "is_ascii s \<Longrightarrow> i < length s \<Longrightarrow> (of_char (s ! i) :: nat) < 128"
  by (simp add: is_ascii_def list_all_length)

lemma update_ne: "i < length s \<Longrightarrow> c \<noteq> s ! i \<Longrightarrow> s[i := c] \<noteq> s"
  by (metis nth_list_update_eq)

lemma flip_bit_at_ascii:
  "is_ascii s \<Longrightarrow> i < length s \<Longrightarrow> b < 8 \<Longrightarrow> is_ascii (flip_bit_at i b s) = (b \<noteq> 7)"
proof -
  assume a: "is_ascii s" and i: "i < length s" and b: "b < 8"
  have "is_ascii (s[i := char_of ((of_char (s ! i) :: nat) XOR 2 ^ b)]) =
        ((of_char (char_of ((of_char (s ! i) :: nat) XOR 2 ^ b)) :: nat) < 128)"
    by (rule is_ascii_update [OF a i])
  also have "\<dots> = (b \<noteq> 7)"
    by (rule flip_char_ascii [OF is_ascii_nth [OF a i] b])
  finally show ?thesis unfolding flip_bit_at_def .
qed

lemma flip_bit_at_ne: "i < length s \<Longrightarrow> b < 8 \<Longrightarrow> flip_bit_at i b s \<noteq> s"
  unfolding flip_bit_at_def by (rule update_ne) (simp_all add: flip_char_ne)

lemma flip_bit_at_nonempty: "i < length s \<Longrightarrow> flip_bit_at i b s \<noteq> []"
  by (auto simp add: flip_bit_at_def)

lemma length_valid_signature: "0 < length (valid_signature H s b)"
  by (simp add: valid_signature_def)


subsection \<open>Accepted and rejected signatures\<close>

text \<open>
  C1. With a non-empty secret \<open>S\<close>, any body \<open>B\<close> and the signature
  \<^verbatim>\<open>"sha256=" + hexdigest(HMAC(S, B))\<close>, verification returns \<^verbatim>\<open>True\<close>.
\<close>

theorem verify_accepts_valid_signature:
  assumes "secret \<noteq> []" and "webhook_secret self = Some secret"
  shows "snd (verify_webhook_signature hmac_sha256 self req
                (Some (''sha256='' @ hexdigest (hmac_sha256 (encode secret) (body req))))) =
         Inr True"
  using assms is_ascii_valid_signature [of hmac_sha256 secret "body req"]
  by (simp add: verify_unfold compare_digest_def valid_signature_def)

theorem verify_accepts_valid_signature_witness:
  "\<forall>hmac_sha256.
     snd (verify_webhook_signature hmac_sha256
            (fresh_server (Some ''test-secret'') :: unit server)
            \<lparr> headers = Map.empty, body = [123, 125], json_body = Inr (JObj []) \<rparr>
            (Some (''sha256='' @ hexdigest (hmac_sha256 (encode ''test-secret'') [123, 125])))) =
     Inr True"
proof
  fix hmac_sha256 :: "bytes \<Rightarrow> bytes \<Rightarrow> bytes"
  show "snd (verify_webhook_signature hmac_sha256
            (fresh_server (Some ''test-secret'') :: unit server)
            \<lparr> headers = Map.empty, body = [123, 125], json_body = Inr (JObj []) \<rparr>
            (Some (''sha256='' @ hexdigest (hmac_sha256 (encode ''test-secret'') [123, 125])))) =
     Inr True"
    using verify_accepts_valid_signature [of "''test-secret''"
        "fresh_server (Some ''test-secret'') :: unit server" hmac_sha256
        "\<lparr> headers = Map.empty, body = [123, 125], json_body = Inr (JObj []) \<rparr>"]
    by (simp add: fresh_server_def)
qed

text \<open>
  C2, as the code has it. Flipping one of the low seven bits of one character of the valid
  signature makes verification return \<^verbatim>\<open>False\<close>; flipping the high bit makes the
  character non-ASCII, and \<^verbatim>\<open>hmac.compare_digest\<close> raises \<^verbatim>\<open>TypeError\<close>. In neither case
  is the signature accepted.
\<close>

theorem verify_rejects_bit_flip:
  assumes "secret \<noteq> []" and "webhook_secret self = Some secret"
    and "i < length (valid_signature hmac_sha256 secret (body req))" and "b < 8"
  shows "snd (verify_webhook_signature hmac_sha256 self req
           (Some (flip_bit_at i b (valid_signature hmac_sha256 secret (body req))))) =
         (if b = 7
          then Inl (TypeError ''comparing strings with non-ASCII characters is not supported'')
          else Inr False)"
  using assms flip_bit_at_ascii [OF is_ascii_valid_signature assms(3) assms(4)]
    flip_bit_at_ne [OF assms(3) assms(4)] flip_bit_at_nonempty [OF assms(3)]
    is_ascii_valid_signature [of hmac_sha256 secret "body req"]
  by (simp add: verify_unfold compare_digest_def)

theorem verify_rejects_bit_flip_witness:
  "\<forall>hmac_sha256.
     snd (verify_webhook_signature hmac_sha256
            (fresh_server (Some ''test-secret'') :: unit server)
            \<lparr> headers = Map.empty, body = [123, 125], json_body = Inr (JObj []) \<rparr>
            (Some (flip_bit_at 0 0 (valid_signature hmac_sha256 ''test-secret'' [123, 125])))) =
     Inr False"
proof
  fix hmac_sha256 :: "bytes \<Rightarrow> bytes \<Rightarrow> bytes"
  show "snd (verify_webhook_signature hmac_sha256
            (fresh_server (Some ''test-secret'') :: unit server)
            \<lparr> headers = Map.empty, body = [123, 125], json_body = Inr (JObj []) \<rparr>
            (Some (flip_bit_at 0 0 (valid_signature hmac_sha256 ''test-secret'' [123, 125])))) =
     Inr False"
    using verify_rejects_bit_flip [of "''test-secret''"
        "fresh_server (Some ''test-secret'') :: unit server" 0 hmac_sha256
        "\<lparr> headers = Map.empty, body = [123, 125], json_body = Inr (JObj []) \<rparr>" 0]
      length_valid_signature [of hmac_sha256 "''test-secret''" "[123, 125]"]
    by (simp add: fresh_server_def)
qed

text \<open>
  C2 as stated fails: flipping the high bit of the first character of the valid signature
  (\<^verbatim>\<open>s\<close> becomes the code point 0xF3) does not make verification return \<^verbatim>\<open>False\<close>; it
  raises.
\<close>

theorem verify_bit_flip_counterexample:
  "\<forall>hmac_sha256.
     snd (verify_webhook_signature hmac_sha256
            (fresh_server (Some ''test-secret'') :: unit server)
            \<lparr> headers = Map.empty, body = [123, 125], json_body = Inr (JObj []) \<rparr>
            (Some (flip_bit_at 0 7 (valid_signature hmac_sha256 ''test-secret'' [123, 125])))) =
     Inl (TypeError ''comparing strings with non-ASCII characters is not supported'')"
  by (simp add: verify_unfold compare_digest_def fresh_server_def flip_bit_at_def
      valid_signature_def is_ascii_def)





section \<open>Properties of the endpoint\<close>






section \<open>Properties of webhook processing\<close>

lemma store_webhook_event_None:
  "redis_client self = None \<Longrightarrow>
   store_webhook_event setex now event_type payload delivery_id self = (None, self)"
  by (simp add: store_webhook_event_def)

lemma store_webhook_event_Some:
  "redis_client self = Some r \<Longrightarrow>
   store_webhook_event setex now event_type payload delivery_id self =
     (fst (setex r (''webhook:'' @ str_opt delivery_id) 3600
             (JObj [(''event_type'', json_opt event_type), (''payload'', payload),
                    (''timestamp'', JStr now), (''delivery_id'', json_opt delivery_id)])),
      self\<lparr> redis_client := Some (snd (setex r (''webhook:'' @ str_opt delivery_id) 3600
             (JObj [(''event_type'', json_opt event_type), (''payload'', payload),
                    (''timestamp'', JStr now), (''delivery_id'', json_opt delivery_id)]))) \<rparr>)"
  by (simp add: store_webhook_event_def split: prod.splits)

lemma store_webhook_event_frame:
  "store_webhook_event setex now event_type payload delivery_id self = (x, s) \<Longrightarrow>
   webhook_handlers s = webhook_handlers self \<and> studio_posts s = studio_posts self \<and>
   pr_configs s = pr_configs self \<and> logger s = logger self \<and>
   webhook_secret s = webhook_secret self"
  by (auto simp add: store_webhook_event_def split: option.splits prod.splits)



lemma store_webhook_error_frame:
  "store_webhook_error setex now delivery_id err self = (x, s) \<Longrightarrow>
   webhook_handlers s = webhook_handlers self \<and> studio_posts s = studio_posts self \<and>
   pr_configs s = pr_configs self \<and> logger s = logger self \<and>
   webhook_secret s = webhook_secret self"
  by (auto simp add: store_webhook_error_def split: option.splits prod.splits)

text \<open>Notifying the backend only ever adds log records.\<close>

lemma notify_studio_backend_frame:
  "(notify_studio_backend now event_type payload self)\<lparr> logger := l \<rparr> = self\<lparr> logger := l \<rparr>"
  by (simp add: notify_studio_backend_def notify_failed_def logger_log_def
      get_project_id_for_repo_def split: sum.splits)

lemma notify_studio_backend_fields:
  "studio_posts (notify_studio_backend now event_type payload self) = studio_posts self \<and>
   redis_client (notify_studio_backend now event_type payload self) = redis_client self \<and>
   webhook_handlers (notify_studio_backend now event_type payload self) = webhook_handlers self \<and>
   pr_configs (notify_studio_backend now event_type payload self) = pr_configs self \<and>
   webhook_secret (notify_studio_backend now event_type payload self) = webhook_secret self"
  by (simp add: notify_studio_backend_def notify_failed_def logger_log_def
      get_project_id_for_repo_def split: sum.splits)

lemma notify_studio_backend_logger:
  "\<exists>l. logger (notify_studio_backend now event_type payload self) = logger self @ l"
  by (simp add: notify_studio_backend_def notify_failed_def logger_log_def
      get_project_id_for_repo_def split: sum.splits)

text \<open>The \<^verbatim>\<open>try\<close> block when the event type has no handler.\<close>

lemma process_webhook_try_no_handler:
  assumes "lookup_handler self event_type = None"
  shows "process_webhook_try invoke setex now event_type payload delivery_id self =
     (case store_webhook_event setex now event_type payload delivery_id self of
        (Some e, s1) \<Rightarrow> (Some e, s1)
      | (None, s1) \<Rightarrow>
          (None, notify_studio_backend now event_type payload
                   (logger_log WARNING
                      (''No handler for webhook event: '' @ str_opt event_type) s1)))"
proof (cases "store_webhook_event setex now event_type payload delivery_id self")
  case (Pair x s1)
  from store_webhook_event_frame [OF Pair] have "webhook_handlers s1 = webhook_handlers self"
    by simp
  with assms have "lookup_handler s1 event_type = None"
    by (simp add: lookup_handler_def split: option.splits)
  with Pair show ?thesis
    by (simp add: process_webhook_try_def split: option.splits)
qed

text \<open>
  C4, as the code has it. For an event type that is not in the handler table: no handler
  runs (the result does not depend on what handlers do), no request is sent to the backend,
  and the tables of the server are unchanged. Without a cache client the call returns
  normally and only the log grows, with the warning among the new records. With a cache
  client whose write succeeds, the delivery is stored under \<^verbatim>\<open>webhook:<delivery id>\<close> for
  3600 seconds, and that is the only other change.
\<close>

theorem unknown_event_not_dispatched:
  assumes "lookup_handler self event_type = None"
  shows
    "process_webhook invoke setex now event_type payload delivery_id self =
       process_webhook invoke' setex now event_type payload delivery_id self \<and>
     studio_posts (snd (process_webhook invoke setex now event_type payload delivery_id self))
       = studio_posts self \<and>
     webhook_handlers (snd (process_webhook invoke setex now event_type payload delivery_id self))
       = webhook_handlers self \<and>
     pr_configs (snd (process_webhook invoke setex now event_type payload delivery_id self))
       = pr_configs self \<and>
     (redis_client self = None \<longrightarrow>
        fst (process_webhook invoke setex now event_type payload delivery_id self) = None \<and>
        (snd (process_webhook invoke setex now event_type payload delivery_id self))
          \<lparr> logger := logger self \<rparr> = self \<and>
        (\<exists>l. logger (snd (process_webhook invoke setex now event_type payload delivery_id self))
           = logger self
             @ (WARNING, ''No handler for webhook event: '' @ str_opt event_type) # l)) \<and>
     (\<forall>r r'. redis_client self = Some r \<and>
        setex r (''webhook:'' @ str_opt delivery_id) 3600
          (JObj [(''event_type'', json_opt event_type), (''payload'', payload),
                 (''timestamp'', JStr now), (''delivery_id'', json_opt delivery_id)])
          = (None, r') \<longrightarrow>
        fst (process_webhook invoke setex now event_type payload delivery_id self) = None \<and>
        (snd (process_webhook invoke setex now event_type payload delivery_id self))
          \<lparr> logger := logger self \<rparr> = self\<lparr> redis_client := Some r' \<rparr>)"
proof (intro conjI impI allI)
  let ?R = "\<lambda>i. process_webhook i setex now event_type payload delivery_id self"
  let ?warn = "(WARNING, ''No handler for webhook event: '' @ str_opt event_type)"
  show "?R invoke = ?R invoke'"
    by (simp add: process_webhook_def process_webhook_try_no_handler [OF assms])
  obtain x s1 where st: "store_webhook_event setex now event_type payload delivery_id self = (x, s1)"
    by (cases "store_webhook_event setex now event_type payload delivery_id self")
  note fr = store_webhook_event_frame [OF st]
  show "studio_posts (snd (?R invoke)) = studio_posts self"
  proof (cases x)
    case None
    with st fr show ?thesis
      by (simp add: process_webhook_def process_webhook_try_no_handler [OF assms]
          notify_studio_backend_fields logger_log_def)
  next
    case (Some e)
    obtain y s2 where er: "process_webhook_except setex now delivery_id e s1 = (y, s2)"
      by (cases "process_webhook_except setex now delivery_id e s1")
    from er have "studio_posts s2 = studio_posts s1"
      unfolding process_webhook_except_def
      by (auto dest!: store_webhook_error_frame simp add: logger_log_def)
    with Some st fr er show ?thesis
      by (simp add: process_webhook_def process_webhook_try_no_handler [OF assms])
  qed
  show "webhook_handlers (snd (?R invoke)) = webhook_handlers self"
  proof (cases x)
    case None
    with st fr show ?thesis
      by (simp add: process_webhook_def process_webhook_try_no_handler [OF assms]
          notify_studio_backend_fields logger_log_def)
  next
    case (Some e)
    obtain y s2 where er: "process_webhook_except setex now delivery_id e s1 = (y, s2)"
      by (cases "process_webhook_except setex now delivery_id e s1")
    from er have "webhook_handlers s2 = webhook_handlers s1"
      unfolding process_webhook_except_def
      by (auto dest!: store_webhook_error_frame simp add: logger_log_def)
    with Some st fr er show ?thesis
      by (simp add: process_webhook_def process_webhook_try_no_handler [OF assms])
  qed
  show "pr_configs (snd (?R invoke)) = pr_configs self"
  proof (cases x)
    case None
    with st fr show ?thesis
      by (simp add: process_webhook_def process_webhook_try_no_handler [OF assms]
          notify_studio_backend_fields logger_log_def)
  next
    case (Some e)
    obtain y s2 where er: "process_webhook_except setex now delivery_id e s1 = (y, s2)"
      by (cases "process_webhook_except setex now delivery_id e s1")
    from er have "pr_configs s2 = pr_configs s1"
      unfolding process_webhook_except_def
      by (auto dest!: store_webhook_error_frame simp add: logger_log_def)
    with Some st fr er show ?thesis
      by (simp add: process_webhook_def process_webhook_try_no_handler [OF assms])
  qed
next
  assume none: "redis_client self = None"
  have R: "process_webhook invoke setex now event_type payload delivery_id self =
        (None, notify_studio_backend now event_type payload
                 (logger_log WARNING (''No handler for webhook event: '' @ str_opt event_type)
                    self))"
    by (simp add: process_webhook_def process_webhook_try_no_handler [OF assms]
        store_webhook_event_None [OF none])
  show "fst (process_webhook invoke setex now event_type payload delivery_id self) = None"
    by (simp add: R)
  show "(snd (process_webhook invoke setex now event_type payload delivery_id self))
          \<lparr> logger := logger self \<rparr> = self"
    by (simp add: R notify_studio_backend_frame logger_log_def)
  show "\<exists>l. logger (snd (process_webhook invoke setex now event_type payload delivery_id self))
           = logger self
             @ (WARNING, ''No handler for webhook event: '' @ str_opt event_type) # l"
    using notify_studio_backend_logger [of now event_type payload
        "logger_log WARNING (''No handler for webhook event: '' @ str_opt event_type) self"]
    by (auto simp add: R logger_log_def)
next
  fix r r'
  assume a: "redis_client self = Some r \<and>
        setex r (''webhook:'' @ str_opt delivery_id) 3600
          (JObj [(''event_type'', json_opt event_type), (''payload'', payload),
                 (''timestamp'', JStr now), (''delivery_id'', json_opt delivery_id)])
          = (None, r')"
  then have some: "redis_client self = Some r" by simp
  have R: "process_webhook invoke setex now event_type payload delivery_id self =
        (None, notify_studio_backend now event_type payload
                 (logger_log WARNING (''No handler for webhook event: '' @ str_opt event_type)
                    (self\<lparr> redis_client := Some r' \<rparr>)))"
    using a
    by (simp add: process_webhook_def process_webhook_try_no_handler [OF assms]
        store_webhook_event_Some [OF some])
  show "fst (process_webhook invoke setex now event_type payload delivery_id self) = None"
    by (simp add: R)
  show "(snd (process_webhook invoke setex now event_type payload delivery_id self))
          \<lparr> logger := logger self \<rparr> = self\<lparr> redis_client := Some r' \<rparr>"
    by (simp add: R notify_studio_backend_frame logger_log_def)
qed


theorem unknown_event_not_dispatched_witness:
  "\<forall>invoke setex now.
     lookup_handler (register_webhook_handlers (fresh_server (Some ''test-secret'')) :: unit server)
       (Some ''release'') = None \<and>
     fst (process_webhook invoke setex now (Some ''release'')
            (JObj [(''action'', JStr ''published'')]) (Some ''12345'')
            (register_webhook_handlers (fresh_server (Some ''test-secret'')) :: unit server))
       = None \<and>
     (snd (process_webhook invoke setex now (Some ''release'')
            (JObj [(''action'', JStr ''published'')]) (Some ''12345'')
            (register_webhook_handlers (fresh_server (Some ''test-secret'')) :: unit server)))
       \<lparr> logger := [] \<rparr>
       = register_webhook_handlers (fresh_server (Some ''test-secret''))"
proof (intro allI)
  fix invoke :: "handler \<Rightarrow> json \<Rightarrow> unit server \<Rightarrow> py_error option \<times> unit server"
  fix setex :: "unit \<Rightarrow> string \<Rightarrow> nat \<Rightarrow> json \<Rightarrow> py_error option \<times> unit"
  fix now :: string
  let ?self = "register_webhook_handlers (fresh_server (Some ''test-secret'')) :: unit server"
  have l: "lookup_handler ?self (Some ''release'') = None"
    by (simp add: lookup_handler_def register_webhook_handlers_def fresh_server_def)
  have n: "redis_client ?self = None" and g: "logger ?self = []"
    by (simp_all add: register_webhook_handlers_def fresh_server_def)
  from unknown_event_not_dispatched [OF l, of invoke setex now
      "JObj [(''action'', JStr ''published'')]" "Some ''12345''" invoke] n g
  show "lookup_handler ?self (Some ''release'') = None \<and>
     fst (process_webhook invoke setex now (Some ''release'')
            (JObj [(''action'', JStr ''published'')]) (Some ''12345'') ?self) = None \<and>
     (snd (process_webhook invoke setex now (Some ''release'')
            (JObj [(''action'', JStr ''published'')]) (Some ''12345'') ?self))
       \<lparr> logger := [] \<rparr> = ?self"
    using l by simp
qed

text \<open>
  C4 as stated fails: with a cache client attached, processing a \<^verbatim>\<open>release\<close> event,
  which has no handler, writes the delivery into the cache.
\<close>

theorem unknown_event_counterexample:
  "\<forall>invoke.
     lookup_handler
       ((register_webhook_handlers (fresh_server (Some ''test-secret'')))
          \<lparr> redis_client := Some (Map.empty :: string \<rightharpoonup> nat \<times> json) \<rparr>)
       (Some ''release'') = None \<and>
     redis_client (snd (process_webhook invoke
         (\<lambda>r k ttl v. (None, r(k \<mapsto> (ttl, v)))) ''2024-01-01T00:00:00''
         (Some ''release'') (JObj [(''action'', JStr ''published'')]) (Some ''12345'')
         ((register_webhook_handlers (fresh_server (Some ''test-secret'')))
            \<lparr> redis_client := Some (Map.empty :: string \<rightharpoonup> nat \<times> json) \<rparr>))) =
       Some [''webhook:12345'' \<mapsto>
               (3600, JObj [(''event_type'', JStr ''release''),
                            (''payload'', JObj [(''action'', JStr ''published'')]),
                            (''timestamp'', JStr ''2024-01-01T00:00:00''),
                            (''delivery_id'', JStr ''12345'')])]"
proof (intro allI conjI)
  fix invoke :: "handler \<Rightarrow> json \<Rightarrow> (string \<rightharpoonup> nat \<times> json) server
                  \<Rightarrow> py_error option \<times> (string \<rightharpoonup> nat \<times> json) server"
  let ?self = "(register_webhook_handlers (fresh_server (Some ''test-secret'')))
          \<lparr> redis_client := Some (Map.empty :: string \<rightharpoonup> nat \<times> json) \<rparr>"
  show l: "lookup_handler ?self (Some ''release'') = None"
    by (simp add: lookup_handler_def register_webhook_handlers_def fresh_server_def)
  have r: "redis_client ?self = Some Map.empty" by simp
  show "redis_client (snd (process_webhook invoke
         (\<lambda>r k ttl v. (None, r(k \<mapsto> (ttl, v)))) ''2024-01-01T00:00:00''
         (Some ''release'') (JObj [(''action'', JStr ''published'')]) (Some ''12345'') ?self)) =
       Some [''webhook:12345'' \<mapsto>
               (3600, JObj [(''event_type'', JStr ''release''),
                            (''payload'', JObj [(''action'', JStr ''published'')]),
                            (''timestamp'', JStr ''2024-01-01T00:00:00''),
                            (''delivery_id'', JStr ''12345'')])]"
    by (simp add: process_webhook_def process_webhook_try_no_handler [OF l]
        store_webhook_event_Some [OF r] notify_studio_backend_fields logger_log_def)
qed

section \<open>Error handling of webhook processing\<close>










section \<open>Properties of the pull-request metrics\<close>






text \<open>The loop stops at the first pull request created before the window.\<close>

lemma accumulate_prs_stop:
  assumes "\<forall>q \<in> set pre. \<not> created_at q < start_date" and "created_at p < start_date"
  shows "accumulate_prs start_date metrics acc (pre @ p # post) =
         accumulate_prs start_date metrics acc pre"
  using assms
proof (induction pre arbitrary: acc)
  case Nil
  then show ?case by simp
next
  case (Cons q pre)
  then show ?case by simp
qed

lemma accumulate_prs_in_window:
  assumes "\<forall>q \<in> set pre. \<not> created_at q < start_date"
  shows "accumulate_prs start_date metrics acc pre = foldl (accumulate_pr metrics) acc pre"
  using assms by (induction pre arbitrary: acc) simp_all

text \<open>
  C8. When every pull request of \<open>pre\<close> was created inside the window and \<open>p\<close> was
  created strictly before its start, then \<open>p\<close> and everything after it, whatever its
  fields, change nothing: the result is that of \<open>pre\<close> alone.
\<close>

theorem analyze_pr_metrics_stops_at_window:
  assumes "\<forall>q \<in> set pre. \<not> created_at q <
             now - (case arg_timeframe_days arguments of None \<Rightarrow> 30 | Some d \<Rightarrow> d) * 86400000000"
    and "created_at p <
           now - (case arg_timeframe_days arguments of None \<Rightarrow> 30 | Some d \<Rightarrow> d) * 86400000000"
  shows "analyze_pr_metrics arguments project (Inr (pre @ p # post)) now =
         analyze_pr_metrics arguments project (Inr pre) now"
  by (simp add: analyze_pr_metrics_def Let_def accumulate_prs_stop [OF assms]
      split: sum.splits)


theorem analyze_pr_metrics_stops_at_window_witness:
  "analyze_pr_metrics
     \<lparr> arg_project_id = ''proj-123'', arg_timeframe_days = Some 30, arg_metrics = None \<rparr>
     (JObj [(''id'', JStr ''proj-123''), (''githubRepoId'', JStr ''123'')])
     (Inr [\<lparr> created_at = 1699900000000000, merged = True, merged_at = Some 1699903600000000,
              state = ''closed'', user_login = ''alice'', comments_totalCount = 2,
              reviews_totalCount = 1, additions = 10, deletions = 5, labels = [''bug''] \<rparr>,
           \<lparr> created_at = 1690000000000000, merged = False, merged_at = None,
              state = ''open'', user_login = ''bob'', comments_totalCount = 7,
              reviews_totalCount = 0, additions = 1, deletions = 1, labels = [] \<rparr>,
           \<lparr> created_at = 1699950000000000, merged = False, merged_at = None,
              state = ''open'', user_login = ''carol'', comments_totalCount = 4,
              reviews_totalCount = 4, additions = 3, deletions = 0, labels = [''feature''] \<rparr>])
     1700000000000000 =
   Success
     \<lparr> total_prs = 1, merged_prs = 1, open_prs = 0, closed_without_merge = 0,
       avg_merge_time_hours = 1, avg_review_time_hours = 0, avg_comments = 3,
       avg_changes = 15, top_contributors = [(''alice'', 1)],
       label_distribution = [(''bug'', 1)], daily_activity = [] \<rparr>
     [MergeRate 100 1 1, AverageMergeTimeHours 1, AverageCommentsPerPR 3,
      TopContributor ''alice'' 1]
     (1697408000000000, 1700000000000000, 30)"
proof -
  let ?args = "\<lparr> arg_project_id = ''proj-123'', arg_timeframe_days = Some 30, arg_metrics = None \<rparr>"
  let ?project = "JObj [(''id'', JStr ''proj-123''), (''githubRepoId'', JStr ''123'')]"
  let ?pr1 = "\<lparr> created_at = 1699900000000000, merged = True, merged_at = Some 1699903600000000,
              state = ''closed'', user_login = ''alice'', comments_totalCount = 2,
              reviews_totalCount = 1, additions = 10, deletions = 5, labels = [''bug''] \<rparr>"
  let ?p = "\<lparr> created_at = 1690000000000000, merged = False, merged_at = None,
              state = ''open'', user_login = ''bob'', comments_totalCount = 7,
              reviews_totalCount = 0, additions = 1, deletions = 1, labels = [] \<rparr>"
  let ?pr3 = "\<lparr> created_at = 1699950000000000, merged = False, merged_at = None,
              state = ''open'', user_login = ''carol'', comments_totalCount = 4,
              reviews_totalCount = 4, additions = 3, deletions = 0, labels = [''feature''] \<rparr>"
  have "analyze_pr_metrics ?args ?project (Inr ([?pr1] @ ?p # [?pr3])) 1700000000000000 =
        analyze_pr_metrics ?args ?project (Inr [?pr1]) 1700000000000000"
    by (rule analyze_pr_metrics_stops_at_window) simp_all
  also have "analyze_pr_metrics ?args ?project (Inr [?pr1]) 1700000000000000 =
     Success
     \<lparr> total_prs = 1, merged_prs = 1, open_prs = 0, closed_without_merge = 0,
       avg_merge_time_hours = 1, avg_review_time_hours = 0, avg_comments = 3,
       avg_changes = 15, top_contributors = [(''alice'', 1)],
       label_distribution = [(''bug'', 1)], daily_activity = [] \<rparr>
     [MergeRate 100 1 1, AverageMergeTimeHours 1, AverageCommentsPerPR 3,
      TopContributor ''alice'' 1]
     (1697408000000000, 1700000000000000, 30)"
    by (simp add: analyze_pr_metrics_def Let_def accumulator_initial_def pr_metrics_initial_def
        accumulate_pr_def dict_incr_def hours_between_def finish_metrics_def
        generate_pr_insights_def)
  finally show ?thesis by simp
qed

section \<open>Properties of the automation settings\<close>

text \<open>
  C9. For a repository dictionary whose id, as a string, has no entry in \<^verbatim>\<open>pr_configs\<close>,
  the result is the default configuration, and the server is unchanged.
\<close>

theorem get_pr_config_default:
  assumes "py_get repository ''id'' JNull = Inr v" and "pr_configs self (py_str v) = None"
  shows "get_pr_config py_str repository self =
     (Inr \<lparr> auto_assign = True, auto_label = True, require_reviews = 2,
            protected_branches = [''main'', ''master'', ''production''],
            draft_on_wip = True, close_stale_after_days = 30 \<rparr>,
      self)"
  using assms by (simp add: get_pr_config_def PRAutomationConfig_default_def)

theorem get_pr_config_default_witness:
  "\<forall>py_str.
     get_pr_config py_str (JObj [(''id'', JInt 42), (''full_name'', JStr ''octo/repo'')])
       (fresh_server None :: unit server) =
     (Inr \<lparr> auto_assign = True, auto_label = True, require_reviews = 2,
            protected_branches = [''main'', ''master'', ''production''],
            draft_on_wip = True, close_stale_after_days = 30 \<rparr>,
      fresh_server None)"
proof
  fix py_str :: "json \<Rightarrow> string"
  show "get_pr_config py_str (JObj [(''id'', JInt 42), (''full_name'', JStr ''octo/repo'')])
       (fresh_server None :: unit server) =
     (Inr \<lparr> auto_assign = True, auto_label = True, require_reviews = 2,
            protected_branches = [''main'', ''master'', ''production''],
            draft_on_wip = True, close_stale_after_days = 30 \<rparr>,
      fresh_server None)"
    using get_pr_config_default [of "JObj [(''id'', JInt 42), (''full_name'', JStr ''octo/repo'')]"
        "JInt 42" "fresh_server None :: unit server" py_str]
    by (simp add: fresh_server_def)
qed


section \<open>Properties of the cache key\<close>









end
